theory Spec2Isabelle
  imports Main
begin

section \<open>JSON values and JavaScript truthiness\<close>

text \<open>
  The request bodies are parsed by \<^verbatim>\<open>express.json()\<close>, so a property of a body is a
  JSON value. Numbers are restricted to the integers (JSON numbers are doubles; the
  handlers only test a number against zero). A JavaScript object is a finite map from
  property names to values; reading a property the object does not have gives
  \<^verbatim>\<open>undefined\<close>, which is \<open>None\<close> here, so a value read from an object is a
  \<open>json option\<close>.
\<close>

datatype json =
    JNull
  | JBool bool
  | JNum int
  | JStr string
  | JArr "json list"
  | JObj "(string \<times> json) list"

type_synonym object = "string \<rightharpoonup> json"

text \<open>
  \<^verbatim>\<open>!v\<close> in JavaScript: \<^verbatim>\<open>undefined\<close>, \<^verbatim>\<open>null\<close>, \<^verbatim>\<open>false\<close>, \<^verbatim>\<open>0\<close> and
  the empty string are falsy; every array and every object is truthy.
\<close>

fun falsy :: "json option \<Rightarrow> bool" where
  "falsy None = True"
| "falsy (Some JNull) = True"
| "falsy (Some (JBool b)) = (\<not> b)"
| "falsy (Some (JNum n)) = (n = 0)"
| "falsy (Some (JStr s)) = (s = [])"
| "falsy (Some (JArr xs)) = False"
| "falsy (Some (JObj ps)) = False"

text \<open>
  An object literal \<^verbatim>\<open>{ k1: v1, ..., kn: vn }\<close> whose values were read from another
  object: a property whose value is \<^verbatim>\<open>undefined\<close> is treated as absent (JSON
  serialisation and the ODM both drop it).
\<close>

definition object :: "(string \<times> json option) list \<Rightarrow> object" where
  "object props = (\<lambda>k. case map_of props k of None \<Rightarrow> None | Some v \<Rightarrow> v)"

section \<open>The employee schema (models/Employee.js)\<close>

datatype schema_type = StringT | NumberT | DateT

text \<open>
  A validator option of a schema path is either not declared (\<open>Off\<close>) or declared with
  its argument and, optionally, a custom message (\<^verbatim>\<open>required: [true, 'msg']\<close>,
  \<^verbatim>\<open>required: true\<close>).
\<close>

datatype 'a rule = Off | On 'a "string option"

text \<open>
  The only regular expression of the schema is \<^verbatim>\<open>/\S+@\S+\.\S+/\<close>: a sequence of
  atoms, each a literal character or \<^verbatim>\<open>\S+\<close> (one or more non-whitespace
  characters).
\<close>

datatype atom = NonSpaces | Lit char

type_synonym regex = "atom list"

record schema_path =
  path_type :: schema_type
  required :: "unit rule"
  unique :: bool
  minlength :: "nat rule"
  match :: "regex rule"
  enum_values :: "string list rule"
  min_value :: "int rule"
  max_value :: "int rule"

definition plain :: "schema_type \<Rightarrow> schema_path" where
  "plain t = \<lparr>path_type = t, required = Off, unique = False, minlength = Off, match = Off,
     enum_values = Off, min_value = Off, max_value = Off\<rparr>"

definition employeeSchema :: "(string \<times> schema_path) list" where
  "employeeSchema =
    [(''employee_id'', (plain StringT)
        \<lparr>required := On () (Some ''Employee ID is required''),
         unique := True\<rparr>),
     (''name'', (plain StringT)
        \<lparr>required := On () (Some ''Employee Name is required''),
         minlength := On 3 (Some ''Employee Name must be at least 3 characters long'')\<rparr>),
     (''email'', (plain StringT)
        \<lparr>match := On [NonSpaces, Lit CHR ''@'', NonSpaces, Lit CHR ''.'', NonSpaces]
           (Some ''Please use a valid email address''),
         unique := True\<rparr>),
     (''job_title'', (plain StringT)
        \<lparr>required := On () (Some ''Job title is required''),
         enum_values := On [''Software Developer'', ''Product Manager'', ''Graphic Designer'', ''HR'']
           None\<rparr>),
     (''age'', (plain NumberT)
        \<lparr>required := On () None,
         min_value := On 19 (Some ''Employees age must be at least 18 or above''),
         max_value := On 120 (Some ''Employee age must be below 120!'')\<rparr>),
     (''date_hired'', (plain DateT)
        \<lparr>required := On () None\<rparr>)]"

text \<open>The paths of the schema, and those that carry \<^verbatim>\<open>unique: true\<close>.\<close>

definition schema_paths :: "string list" where
  "schema_paths = map fst employeeSchema"

definition unique_paths :: "string list" where
  "unique_paths = map fst (filter (\<lambda>(k, p). unique p) employeeSchema)"

section \<open>Responses and the driver\<close>

text \<open>
  A rejected promise of the driver is a value \<open>Inl error\<close>. The ODM raises a validation
  error (one entry for each failing path: its value could not be cast to the path's type,
  or a validator of the schema rejected it, with the validator's message), a cast error
  for an update, and the database a duplicate-key error for a unique index;
  \<open>DriverError\<close> stands for everything else (a lost connection, a timeout).
  \<open>TypeError\<close> is the error JavaScript throws when a handler destructures a
  \<^verbatim>\<open>req.body\<close> that is \<^verbatim>\<open>undefined\<close>; it names the first property the handler
  reads (the text of its message is the engine's).
\<close>

datatype reason = CastFailed | Violated "string option"

datatype error =
    ValidationError "(string \<times> reason) list"
  | CastError string
  | DuplicateKey string
  | DriverError string
  | TypeError string

text \<open>
  What a handler sends: \<^verbatim>\<open>res.status(n).json(payload)\<close>. The payload is
  \<^verbatim>\<open>{ message: '...' }\<close> with a text of the handler's own, \<^verbatim>\<open>{ message: error.message }\<close>
  for a caught error, one document, or a list of documents.
\<close>

datatype payload =
    Message string
  | ErrorMessage error
  | Document object
  | Documents "object list"

datatype response = Response (status: nat) (json_body: payload)

text \<open>
  Modelled from the spec: the document-database driver. The \<^verbatim>\<open>Employee\<close> model is
  compiled by the ODM, a third-party library that is not part of the source; the handlers
  use five of its methods, named in the spec (\<^verbatim>\<open>find\<close>, \<^verbatim>\<open>findOne\<close>,
  \<^verbatim>\<open>findOneAndUpdate\<close>, \<^verbatim>\<open>findOneAndDelete\<close>, \<^verbatim>\<open>save\<close>). The handlers
  take them as a parameter over any type \<open>'db\<close> of database states. A query returns its
  answer; a write returns its answer and the new state; a rejected call leaves the state
  as it was. \<open>findOneAndUpdate\<close> is the call with the option \<^verbatim>\<open>{ new: true }\<close>.
  \<open>save\<close> takes the object the handler gives to the constructor: it stands for
  \<^verbatim>\<open>new Employee(obj)\<close> followed by \<^verbatim>\<open>save()\<close> on the new document, since the
  constructor is the ODM's too (it casts the values, and what it could not cast is
  reported by \<^verbatim>\<open>save()\<close>).
\<close>

record 'db driver =
  find_docs :: "'db \<Rightarrow> error + object list"
  findOne :: "string \<Rightarrow> 'db \<Rightarrow> error + object option"
  findOneAndUpdate :: "string \<Rightarrow> object \<Rightarrow> 'db \<Rightarrow> error + (object option \<times> 'db)"
  findOneAndDelete :: "string \<Rightarrow> 'db \<Rightarrow> error + (object option \<times> 'db)"
  save :: "object \<Rightarrow> 'db \<Rightarrow> error + (object \<times> 'db)"

section \<open>The route handlers\<close>

text \<open>
  Each handler takes the driver, the request and the database state, and returns the
  response with the database state afterwards. Of the request, \<^verbatim>\<open>req.params.employee_id\<close>
  is a string, and \<^verbatim>\<open>req.body\<close> is \<open>Some\<close> object when \<^verbatim>\<open>express.json()\<close>
  parsed a body (an array is an object without the properties the handlers read) and
  \<open>None\<close>, JavaScript's \<^verbatim>\<open>undefined\<close>, when it parsed none, as Express 5 leaves
  it for a request without a JSON body (Express 4 puts the empty object there).
  Everything a handler does is inside its \<^verbatim>\<open>try\<close>: the \<^verbatim>\<open>catch\<close> block is the
  answer to the \<open>TypeError\<close> of destructuring an undefined body and to the \<open>Inl\<close>
  of the driver call. The logging of the body has no effect on the response and is left
  out.
\<close>

text \<open>routes/createEmployee.js, \<^verbatim>\<open>router.post('/')\<close>.\<close>

definition createEmployee :: "'db driver \<Rightarrow> object option \<Rightarrow> 'db \<Rightarrow> response \<times> 'db" where
  "createEmployee Employee req_body db =
    (case req_body of
       None \<Rightarrow> (Response 400 (ErrorMessage (TypeError ''employee_id'')), db)
     | Some body \<Rightarrow>
        (let employee_id = body ''employee_id''; name = body ''name''; email = body ''email'';
             job_title = body ''job_title''; age = body ''age'';
             date_hired = body ''date_hired''
         in
           if falsy employee_id \<or> falsy name \<or> falsy email \<or> falsy job_title \<or> falsy age
              \<or> falsy date_hired
           then (Response 400 (Message ''All fields are required.''), db)
           else
             case save Employee
                    (object
                       [(''employee_id'', employee_id), (''name'', name), (''email'', email),
                        (''job_title'', job_title), (''age'', age),
                        (''date_hired'', date_hired)]) db of
               Inl error \<Rightarrow> (Response 400 (ErrorMessage error), db)
             | Inr (savedEmployee, db') \<Rightarrow> (Response 201 (Document savedEmployee), db')))"

text \<open>routes/readEmployee.js, \<^verbatim>\<open>router.get('/')\<close>.\<close>

definition readEmployees :: "'db driver \<Rightarrow> 'db \<Rightarrow> response \<times> 'db" where
  "readEmployees Employee db =
    (case find_docs Employee db of
       Inl error \<Rightarrow> (Response 400 (ErrorMessage error), db)
     | Inr employees \<Rightarrow>
         if length employees = 0
         then (Response 404 (Message ''No employees found''), db)
         else (Response 200 (Documents employees), db))"

text \<open>routes/readEmployee.js, \<^verbatim>\<open>router.get('/:employee_id')\<close>.\<close>

definition readEmployee :: "'db driver \<Rightarrow> string \<Rightarrow> 'db \<Rightarrow> response \<times> 'db" where
  "readEmployee Employee employee_id db =
    (case findOne Employee employee_id db of
       Inl error \<Rightarrow> (Response 400 (ErrorMessage error), db)
     | Inr employee \<Rightarrow>
         (case employee of
            None \<Rightarrow>
              (Response 404 (Message (''Employee with ID '' @ employee_id @ '' not found'')), db)
          | Some e \<Rightarrow> (Response 200 (Document e), db)))"

text \<open>routes/updateEmployee.js, \<^verbatim>\<open>router.put('/:employee_id')\<close>.\<close>

definition updateEmployee ::
  "'db driver \<Rightarrow> string \<Rightarrow> object option \<Rightarrow> 'db \<Rightarrow> response \<times> 'db" where
  "updateEmployee Employee employee_id req_body db =
    (case req_body of
       None \<Rightarrow> (Response 400 (ErrorMessage (TypeError ''name'')), db)
     | Some body \<Rightarrow>
        (let name = body ''name''; email = body ''email''; job_title = body ''job_title'';
             age = body ''age''; date_hired = body ''date_hired''
         in
           if falsy name \<or> falsy email \<or> falsy job_title \<or> falsy age \<or> falsy date_hired
           then (Response 400 (Message ''All fields are required.''), db)
           else
             case findOneAndUpdate Employee employee_id
                    (object [(''name'', name), (''email'', email), (''job_title'', job_title),
                             (''age'', age), (''date_hired'', date_hired)]) db of
               Inl error \<Rightarrow> (Response 400 (ErrorMessage error), db)
             | Inr (updatedEmployee, db') \<Rightarrow>
                 (case updatedEmployee of
                    None \<Rightarrow>
                      (Response 404
                         (Message
                            (''Employee with employee_id '' @ employee_id @ '' not found'')),
                       db')
                  | Some e \<Rightarrow> (Response 200 (Document e), db'))))"

text \<open>routes/deleteEmployee.js, \<^verbatim>\<open>router.delete('/:employee_id')\<close>.\<close>

definition deleteEmployee :: "'db driver \<Rightarrow> string \<Rightarrow> 'db \<Rightarrow> response \<times> 'db" where
  "deleteEmployee Employee employee_id db =
    (case findOneAndDelete Employee employee_id db of
       Inl error \<Rightarrow> (Response 400 (ErrorMessage error), db)
     | Inr (deletedEmployee, db') \<Rightarrow>
         (case deletedEmployee of
            None \<Rightarrow>
              (Response 404
                 (Message (''Employee with employee_id '' @ employee_id @ '' not found'')),
               db')
          | Some e \<Rightarrow>
              (Response 200
                 (Message (''Employee with employee_id '' @ employee_id @ '' deleted successfully'')),
               db')))"

text \<open>The body fields the create and the update handler read.\<close>

definition create_fields :: "string list" where
  "create_fields = [''employee_id'', ''name'', ''email'', ''job_title'', ''age'', ''date_hired'']"

definition update_fields :: "string list" where
  "update_fields = [''name'', ''email'', ''job_title'', ''age'', ''date_hired'']"

section \<open>An in-memory document store\<close>

text \<open>
  Modelled from the spec: the document store behind the driver, which is not part of the
  source. The spec names its contracts: unique-key lookup, existence check,
  replace-on-update, delete-and-report, and a uniqueness constraint. The collection is the
  list of its documents in insertion order. The validators are those the schema declares.
  Two things the ODM does are library code and are taken as parameters: the cast of a
  value to the type of its schema path (\<open>None\<close> when the value cannot be cast), and the
  ObjectId it generates for a new document. Every fact about the store below holds for
  any choice of the two.
\<close>

type_synonym collection = "object list"

record odm =
  cast_value :: "schema_type \<Rightarrow> json \<Rightarrow> json option"
  object_id :: "collection \<Rightarrow> string"

text \<open>\<^verbatim>\<open>\s\<close> on the characters below 256.\<close>

definition is_space :: "char \<Rightarrow> bool" where
  "is_space c = ((of_char c :: nat) \<in> {9, 10, 11, 12, 13, 32, 160})"

fun match_here :: "regex \<Rightarrow> string \<Rightarrow> bool" where
  "match_here [] s = True"
| "match_here (Lit c # r) [] = False"
| "match_here (Lit c # r) (x # xs) = (x = c \<and> match_here r xs)"
| "match_here (NonSpaces # r) [] = False"
| "match_here (NonSpaces # r) (x # xs) =
     (\<not> is_space x \<and> (match_here r xs \<or> match_here (NonSpaces # r) xs))"

text \<open>\<^verbatim>\<open>regExp.test(s)\<close>: the expression matches somewhere in the string.\<close>

fun regex_test :: "regex \<Rightarrow> string \<Rightarrow> bool" where
  "regex_test r [] = match_here r []"
| "regex_test r (x # xs) = (match_here r (x # xs) \<or> regex_test r xs)"

text \<open>
  The cast of an object to the schema: a property that is not a path of the schema is
  dropped, a value that cannot be cast is left out (and reported, see below).
\<close>

definition cast_object :: "odm \<Rightarrow> object \<Rightarrow> object" where
  "cast_object m obj =
    (\<lambda>k. case map_of employeeSchema k of
           None \<Rightarrow> None
         | Some p \<Rightarrow> (case obj k of None \<Rightarrow> None | Some v \<Rightarrow> cast_value m (path_type p) v))"

definition cast_failed :: "odm \<Rightarrow> schema_path \<Rightarrow> json option \<Rightarrow> bool" where
  "cast_failed m p v =
    (case v of None \<Rightarrow> False | Some x \<Rightarrow> cast_value m (path_type p) x = None)"

text \<open>
  The \<^verbatim>\<open>required\<close> validator rejects \<^verbatim>\<open>undefined\<close>, \<^verbatim>\<open>null\<close> and the empty
  string. The other validators skip \<^verbatim>\<open>undefined\<close> and \<^verbatim>\<open>null\<close>, and
  \<^verbatim>\<open>match\<close> skips the empty string too. They see the value after its cast.
\<close>

fun provided :: "json option \<Rightarrow> bool" where
  "provided None = False"
| "provided (Some JNull) = False"
| "provided (Some (JStr s)) = (s \<noteq> [])"
| "provided (Some v) = True"

definition holds :: "'a rule \<Rightarrow> ('a \<Rightarrow> bool) \<Rightarrow> reason option" where
  "holds r ok = (case r of Off \<Rightarrow> None | On a m \<Rightarrow> if ok a then None else Some (Violated m))"

fun first_failure :: "reason option list \<Rightarrow> reason option" where
  "first_failure [] = None"
| "first_failure (None # rs) = first_failure rs"
| "first_failure (Some r # rs) = Some r"

fun check_value :: "schema_path \<Rightarrow> json option \<Rightarrow> reason option" where
  "check_value p (Some (JStr s)) =
     first_failure
       [holds (minlength p) (\<lambda>n. n \<le> length s),
        holds (match p) (\<lambda>r. s = [] \<or> regex_test r s),
        holds (enum_values p) (\<lambda>vs. s \<in> set vs)]"
| "check_value p (Some (JNum n)) =
     first_failure
       [holds (min_value p) (\<lambda>m. m \<le> n),
        holds (max_value p) (\<lambda>m. n \<le> m)]"
| "check_value p v = None"

definition check_path :: "odm \<Rightarrow> schema_path \<Rightarrow> json option \<Rightarrow> reason option" where
  "check_path m p v =
    (if cast_failed m p v then Some CastFailed
     else
       let c = (case v of None \<Rightarrow> None | Some x \<Rightarrow> cast_value m (path_type p) x)
       in first_failure [holds (required p) (\<lambda>u. provided c), check_value p c])"

definition validate :: "odm \<Rightarrow> object \<Rightarrow> (string \<times> reason) list" where
  "validate m obj =
     List.map_filter (\<lambda>(k, p). map_option (Pair k) (check_path m p (obj k))) employeeSchema"

text \<open>
  The unique indexes: the first unique path, among those in \<open>ks\<close>, on which the document
  agrees with a document of the list.
\<close>

definition duplicate_key :: "string list \<Rightarrow> object \<Rightarrow> object list \<Rightarrow> string option" where
  "duplicate_key ks doc docs = List.find (\<lambda>k. list_ex (\<lambda>d. d k = doc k) docs) ks"

text \<open>
  The query \<^verbatim>\<open>{ employee_id }\<close> of the handlers: the key is the string of the URL,
  which the cast to a string leaves as it is.
\<close>

definition has_id :: "string \<Rightarrow> object \<Rightarrow> bool" where
  "has_id employee_id d = (d ''employee_id'' = Some (JStr employee_id))"

definition mem_find :: "collection \<Rightarrow> error + object list" where
  "mem_find docs = Inr docs"

definition mem_findOne :: "string \<Rightarrow> collection \<Rightarrow> error + object option" where
  "mem_findOne employee_id docs = Inr (List.find (has_id employee_id) docs)"

text \<open>
  The update is cast to the schema first (validators do not run on an update); the first
  document with the key gets the cast properties of the update, the others keep their
  place; no document is created when there is none (no upsert).
\<close>

definition mem_findOneAndUpdate ::
  "odm \<Rightarrow> string \<Rightarrow> object \<Rightarrow> collection \<Rightarrow> error + (object option \<times> collection)" where
  "mem_findOneAndUpdate m employee_id upd docs =
    (case List.find (\<lambda>(k, p). cast_failed m p (upd k)) employeeSchema of
       Some (k, p) \<Rightarrow> Inl (CastError k)
     | None \<Rightarrow>
         (case List.extract (has_id employee_id) docs of
            None \<Rightarrow> Inr (None, docs)
          | Some (before, d, after) \<Rightarrow>
              let d' = d ++ cast_object m upd in
              (case duplicate_key (filter (\<lambda>k. upd k \<noteq> None) unique_paths) d' (before @ after) of
                 Some k \<Rightarrow> Inl (DuplicateKey k)
               | None \<Rightarrow> Inr (Some d', before @ d' # after))))"

definition mem_findOneAndDelete ::
  "string \<Rightarrow> collection \<Rightarrow> error + (object option \<times> collection)" where
  "mem_findOneAndDelete employee_id docs =
    (case List.extract (has_id employee_id) docs of
       None \<Rightarrow> Inr (None, docs)
     | Some (before, d, after) \<Rightarrow> Inr (Some d, before @ after))"

text \<open>
  \<^verbatim>\<open>new Employee(obj)\<close>: the document holds the cast values of the schema's paths and
  a new \<^verbatim>\<open>_id\<close>. \<^verbatim>\<open>save()\<close> validates it, adds the version key \<^verbatim>\<open>__v\<close> and
  inserts it, unless a unique index rejects it.
\<close>

definition new_Employee :: "odm \<Rightarrow> collection \<Rightarrow> object \<Rightarrow> object" where
  "new_Employee m docs obj = (cast_object m obj)(''_id'' \<mapsto> JStr (object_id m docs))"

definition mem_save :: "odm \<Rightarrow> object \<Rightarrow> collection \<Rightarrow> error + (object \<times> collection)" where
  "mem_save m obj docs =
    (case validate m obj of
       [] \<Rightarrow>
         let doc = (new_Employee m docs obj)(''__v'' \<mapsto> JNum 0) in
         (case duplicate_key unique_paths doc docs of
            Some k \<Rightarrow> Inl (DuplicateKey k)
          | None \<Rightarrow> Inr (doc, docs @ [doc]))
     | e # es \<Rightarrow> Inl (ValidationError (e # es)))"

definition mem :: "odm \<Rightarrow> collection driver" where
  "mem m = \<lparr>find_docs = mem_find, findOne = mem_findOne,
     findOneAndUpdate = mem_findOneAndUpdate m, findOneAndDelete = mem_findOneAndDelete,
     save = mem_save m\<rparr>"

section \<open>The application's routes (app.js)\<close>

text \<open>
  A request is an HTTP method and the segments of its path. A route pattern is a list of
  segments, each fixed text or a named parameter (\<^verbatim>\<open>:employee_id\<close>), which matches
  one non-empty segment. Matching is Express's default: \<^verbatim>\<open>/api/employees\<close> and
  \<^verbatim>\<open>/api/employees/\<close> are the same path, and the case of the letters of a fixed
  segment does not matter.
\<close>

datatype verb = GET | POST | PUT | DELETE

datatype segment = Fixed string | Param string

type_synonym route_pattern = "segment list"

datatype handler =
    CreateEmployee
  | ReadEmployees
  | ReadEmployee
  | UpdateEmployee
  | DeleteEmployee
  | Root
  | Health

type_synonym router = "(verb \<times> route_pattern \<times> handler) list"

definition createEmployeeRoute :: router where
  "createEmployeeRoute = [(POST, [], CreateEmployee)]"

definition readEmployeeRoute :: router where
  "readEmployeeRoute = [(GET, [], ReadEmployees), (GET, [Param ''employee_id''], ReadEmployee)]"

definition updateEmployeeRoute :: router where
  "updateEmployeeRoute = [(PUT, [Param ''employee_id''], UpdateEmployee)]"

definition deleteEmployeeRoute :: router where
  "deleteEmployeeRoute = [(DELETE, [Param ''employee_id''], DeleteEmployee)]"

text \<open>\<^verbatim>\<open>app.use(prefix, router)\<close> mounts a router; \<^verbatim>\<open>app.get(path, handler)\<close> adds one route.\<close>

datatype layer = Use route_pattern router | Route verb route_pattern handler

definition app :: "layer list" where
  "app =
    [Use [Fixed ''api'', Fixed ''employees''] createEmployeeRoute,
     Use [Fixed ''api'', Fixed ''employees''] readEmployeeRoute,
     Use [Fixed ''api'', Fixed ''employees''] readEmployeeRoute,
     Use [Fixed ''api'', Fixed ''employees''] readEmployeeRoute,
     Use [Fixed ''api'', Fixed ''employees''] updateEmployeeRoute,
     Use [Fixed ''api'', Fixed ''employees''] deleteEmployeeRoute,
     Route GET [] Root,
     Route GET [Fixed ''health''] Health,
     Route GET [Fixed ''health''] Health]"

fun layer_routes :: "layer \<Rightarrow> (verb \<times> route_pattern \<times> handler) list" where
  "layer_routes (Use prefix r) = map (\<lambda>(m, p, h). (m, prefix @ p, h)) r"
| "layer_routes (Route m p h) = [(m, p, h)]"

text \<open>The routes the application exposes, each once.\<close>

definition routes :: "layer list \<Rightarrow> (verb \<times> route_pattern \<times> handler) list" where
  "routes layers = remdups (concat (map layer_routes layers))"

definition lower :: "char \<Rightarrow> char" where
  "lower c =
    (let n = (of_char c :: nat) in if 65 \<le> n \<and> n \<le> 90 then char_of (n + 32) else c)"

fun matches :: "route_pattern \<Rightarrow> string list \<Rightarrow> bool" where
  "matches [] [] = True"
| "matches (Fixed s # p) (x # xs) = (map lower x = map lower s \<and> matches p xs)"
| "matches (Param n # p) (x # xs) = (x \<noteq> [] \<and> matches p xs)"
| "matches p xs = False"

text \<open>The handler that answers a request: that of the first route that matches.\<close>

definition dispatch :: "layer list \<Rightarrow> verb \<Rightarrow> string list \<Rightarrow> handler option" where
  "dispatch layers m path =
     map_option (\<lambda>(m', p, h). h)
       (List.find (\<lambda>(m', p, h). m' = m \<and> matches p path) (concat (map layer_routes layers)))"

text \<open>The five routes of the CRUD operations on employees.\<close>

definition crud_routes :: "(verb \<times> route_pattern \<times> handler) list" where
  "crud_routes =
    [(POST, [Fixed ''api'', Fixed ''employees''], CreateEmployee),
     (GET, [Fixed ''api'', Fixed ''employees''], ReadEmployees),
     (GET, [Fixed ''api'', Fixed ''employees'', Param ''employee_id''], ReadEmployee),
     (PUT, [Fixed ''api'', Fixed ''employees'', Param ''employee_id''], UpdateEmployee),
     (DELETE, [Fixed ''api'', Fixed ''employees'', Param ''employee_id''], DeleteEmployee)]"

section \<open>Sample requests\<close>

text \<open>
  A fragment of the ODM's cast, for the sample requests: a string or a boolean for a
  String path, an integer or a string of decimal digits for a Number path, and for a Date
  path a calendar date \<^verbatim>\<open>YYYY-MM-DD\<close> (day up to 28), which becomes the timestamp of
  its midnight in UTC, as a date is written in a JSON response; \<^verbatim>\<open>null\<close> stays
  \<^verbatim>\<open>null\<close>, and the empty string becomes \<^verbatim>\<open>null\<close> on a Number or a Date
  path. A value outside the fragment is not cast here, although the ODM casts some such
  values (a number with a fraction, a date in another notation); the store is run with
  this cast on the samples only, and every theorem about the store is for any cast.
\<close>

definition is_digit :: "char \<Rightarrow> bool" where
  "is_digit c = (48 \<le> (of_char c :: nat) \<and> (of_char c :: nat) \<le> 57)"

definition decimal :: "string \<Rightarrow> int" where
  "decimal s = foldl (\<lambda>a c. 10 * a + int ((of_char c :: nat) - 48)) 0 s"

fun calendar_date :: "string \<Rightarrow> bool" where
  "calendar_date [y1, y2, y3, y4, h1, m1, m2, h2, d1, d2] =
     (list_all is_digit [y1, y2, y3, y4, m1, m2, d1, d2] \<and> h1 = CHR ''-'' \<and> h2 = CHR ''-'' \<and>
      1 \<le> decimal [m1, m2] \<and> decimal [m1, m2] \<le> 12 \<and>
      1 \<le> decimal [d1, d2] \<and> decimal [d1, d2] \<le> 28)"
| "calendar_date s = False"

fun sample_cast :: "schema_type \<Rightarrow> json \<Rightarrow> json option" where
  "sample_cast t JNull = Some JNull"
| "sample_cast StringT (JStr s) = Some (JStr s)"
| "sample_cast StringT (JBool b) = Some (JStr (if b then ''true'' else ''false''))"
| "sample_cast NumberT (JNum n) = Some (JNum n)"
| "sample_cast NumberT (JStr s) =
     (if s = [] then Some JNull
      else if list_all is_digit s then Some (JNum (decimal s)) else None)"
| "sample_cast DateT (JStr s) =
     (if s = [] then Some JNull
      else if calendar_date s then Some (JStr (s @ ''T00:00:00.000Z'')) else None)"
| "sample_cast t v = None"

definition sample_odm :: odm where
  "sample_odm =
    \<lparr>cast_value = sample_cast,
     object_id = (\<lambda>docs. case docs of [] \<Rightarrow> ''6685c1acc3ce6380ffdd0004''
                                  | d # ds \<Rightarrow> ''6685c1acc3ce6380ffdd0005'')\<rparr>"

text \<open>The sample document of the README as a request body, with a job title of the schema's list.\<close>

definition alex :: object where
  "alex =
    [''employee_id'' \<mapsto> JStr ''emp123'', ''name'' \<mapsto> JStr ''Alex Chow'',
     ''email'' \<mapsto> JStr ''alex@college.com'', ''job_title'' \<mapsto> JStr ''Software Developer'',
     ''age'' \<mapsto> JNum 58, ''date_hired'' \<mapsto> JStr ''2024-07-03'']"

text \<open>The documents of two employees as the collection holds them.\<close>

definition alex_doc :: object where
  "alex_doc =
    [''employee_id'' \<mapsto> JStr ''emp123'', ''name'' \<mapsto> JStr ''Alex Chow'',
     ''email'' \<mapsto> JStr ''alex@college.com'', ''job_title'' \<mapsto> JStr ''Software Developer'',
     ''age'' \<mapsto> JNum 58, ''date_hired'' \<mapsto> JStr ''2024-07-03T00:00:00.000Z'',
     ''_id'' \<mapsto> JStr ''6685c1acc3ce6380ffdd0004'', ''__v'' \<mapsto> JNum 0]"

definition sam_doc :: object where
  "sam_doc =
    [''employee_id'' \<mapsto> JStr ''emp456'', ''name'' \<mapsto> JStr ''Sam Lee'',
     ''email'' \<mapsto> JStr ''sam@college.com'', ''job_title'' \<mapsto> JStr ''HR'',
     ''age'' \<mapsto> JNum 41, ''date_hired'' \<mapsto> JStr ''2023-01-16T00:00:00.000Z'',
     ''_id'' \<mapsto> JStr ''6685c1acc3ce6380ffdd0005'', ''__v'' \<mapsto> JNum 0]"

text \<open>A body for an update of the five fields.\<close>

definition promotion :: object where
  "promotion =
    [''name'' \<mapsto> JStr ''Alex Chow'', ''email'' \<mapsto> JStr ''alex.chow@college.com'',
     ''job_title'' \<mapsto> JStr ''Product Manager'', ''age'' \<mapsto> JNum 59,
     ''date_hired'' \<mapsto> JStr ''2024-07-03'']"

text \<open>The create request with an empty email, and the update with the age zero.\<close>

definition blank_email :: object where
  "blank_email = alex(''email'' \<mapsto> JStr [])"

definition zero_age :: object where
  "zero_age = promotion(''age'' \<mapsto> JNum 0)"

text \<open>The update with a date that is none.\<close>

definition bad_date :: object where
  "bad_date = promotion(''date_hired'' \<mapsto> JStr ''not a date'')"

section \<open>The specification's words\<close>

text \<open>
  Replace-on-update: the document with the named fields set to the values of the body,
  every other property as it was.
\<close>

definition set_fields :: "string list \<Rightarrow> object \<Rightarrow> object \<Rightarrow> object" where
  "set_fields fs body d = (\<lambda>k. if k \<in> set fs then body k else d k)"

text \<open>A field is present in a body when the body has a value for it.\<close>

definition present :: "object \<Rightarrow> string \<Rightarrow> bool" where
  "present body f = (body f \<noteq> None)"

section \<open>Facts about the handlers, for any driver\<close>

text \<open>
  The object the create handler hands to the model is the body cut down to its six
  fields; the update the update handler sends is the body cut down to its five fields. A
  missing field is a falsy one.
\<close>

lemma object_create_fields:
  "object
     [(''employee_id'', body ''employee_id''), (''name'', body ''name''),
      (''email'', body ''email''), (''job_title'', body ''job_title''),
      (''age'', body ''age''), (''date_hired'', body ''date_hired'')]
   = body |` set create_fields"
  by (rule ext) (simp add: object_def create_fields_def restrict_map_def)

lemma object_update_fields:
  "object [(''name'', body ''name''), (''email'', body ''email''),
           (''job_title'', body ''job_title''), (''age'', body ''age''),
           (''date_hired'', body ''date_hired'')]
   = body |` set update_fields"
  by (rule ext) (simp add: object_def update_fields_def restrict_map_def)

lemma missing_falsy:
  assumes "\<exists>f \<in> set fs. \<not> present body f"
  shows "\<exists>f \<in> set fs. falsy (body f)"
proof -
  from assms obtain f where "f \<in> set fs" "body f = None"
    by (auto simp: present_def)
  then have "f \<in> set fs" "falsy (body f)" by simp_all
  then show ?thesis by blast
qed

lemma createEmployee_rejects:
  assumes "\<exists>f \<in> set create_fields. falsy (body f)"
  shows "createEmployee Employee (Some body) db =
    (Response 400 (Message ''All fields are required.''), db)"
  using assms unfolding createEmployee_def Let_def create_fields_def by auto

lemma createEmployee_saves:
  assumes "\<forall>f \<in> set create_fields. \<not> falsy (body f)"
  shows "createEmployee Employee (Some body) db =
    (case save Employee (body |` set create_fields) db of
       Inl error \<Rightarrow> (Response 400 (ErrorMessage error), db)
     | Inr (savedEmployee, db') \<Rightarrow> (Response 201 (Document savedEmployee), db'))"
  using assms unfolding createEmployee_def Let_def object_create_fields
  by (simp add: create_fields_def)

lemma createEmployee_ignores_falsy:
  assumes "f \<in> set create_fields" and "falsy (body f)"
  shows "createEmployee Employee (Some (body(f := None))) db =
    createEmployee Employee (Some body) db"
proof -
  from assms have "\<exists>g \<in> set create_fields. falsy (body g)" by blast
  moreover from assms(1) have "\<exists>g \<in> set create_fields. falsy ((body(f := None)) g)"
    by (intro bexI [of _ f]) simp_all
  ultimately show ?thesis
    by (simp add: createEmployee_rejects)
qed

lemma updateEmployee_rejects:
  assumes "\<exists>f \<in> set update_fields. falsy (body f)"
  shows "updateEmployee Employee employee_id (Some body) db =
    (Response 400 (Message ''All fields are required.''), db)"
  using assms unfolding updateEmployee_def Let_def update_fields_def by auto

lemma updateEmployee_updates:
  assumes "\<forall>f \<in> set update_fields. \<not> falsy (body f)"
  shows "updateEmployee Employee employee_id (Some body) db =
    (case findOneAndUpdate Employee employee_id (body |` set update_fields) db of
       Inl error \<Rightarrow> (Response 400 (ErrorMessage error), db)
     | Inr (updatedEmployee, db') \<Rightarrow>
         (case updatedEmployee of
            None \<Rightarrow>
              (Response 404
                 (Message (''Employee with employee_id '' @ employee_id @ '' not found'')),
               db')
          | Some e \<Rightarrow> (Response 200 (Document e), db')))"
  using assms unfolding updateEmployee_def Let_def object_update_fields
  by (simp add: update_fields_def)

lemma updateEmployee_ignores_falsy:
  assumes "f \<in> set update_fields" and "falsy (body f)"
  shows "updateEmployee Employee employee_id (Some (body(f := None))) db =
    updateEmployee Employee employee_id (Some body) db"
proof -
  from assms have "\<exists>g \<in> set update_fields. falsy (body g)" by blast
  moreover from assms(1) have "\<exists>g \<in> set update_fields. falsy ((body(f := None)) g)"
    by (intro bexI [of _ f]) simp_all
  ultimately show ?thesis
    by (simp add: updateEmployee_rejects)
qed

lemma updateEmployee_body_id:
  "updateEmployee Employee employee_id (Some (body(''employee_id'' := v))) db =
   updateEmployee Employee employee_id (Some body) db"
  by (simp add: updateEmployee_def)

lemma createEmployee_unparsed:
  "createEmployee Employee None db =
    (Response 400 (ErrorMessage (TypeError ''employee_id'')), db)"
  by (simp add: createEmployee_def)

lemma updateEmployee_unparsed:
  "updateEmployee Employee employee_id None db =
    (Response 400 (ErrorMessage (TypeError ''name'')), db)"
  by (simp add: updateEmployee_def)

lemma createEmployee_status:
  "status (fst (createEmployee Employee req_body db)) \<in> {201, 400}"
proof (cases req_body)
  case None
  then show ?thesis by (simp add: createEmployee_unparsed)
next
  case (Some body)
  show ?thesis
  proof (cases "\<exists>f \<in> set create_fields. falsy (body f)")
    case True
    then show ?thesis using Some by (simp add: createEmployee_rejects)
  next
    case False
    then have "\<forall>f \<in> set create_fields. \<not> falsy (body f)" by simp
    then show ?thesis using Some
      by (simp add: createEmployee_saves split: sum.split prod.split)
  qed
qed

lemma readEmployees_status:
  "status (fst (readEmployees Employee db)) \<in> {200, 400, 404}"
  unfolding readEmployees_def by (simp split: sum.split)

lemma readEmployee_status:
  "status (fst (readEmployee Employee employee_id db)) \<in> {200, 400, 404}"
  unfolding readEmployee_def by (simp split: sum.split option.split)

lemma updateEmployee_status:
  "status (fst (updateEmployee Employee employee_id req_body db)) \<in> {200, 400, 404}"
proof (cases req_body)
  case None
  then show ?thesis by (simp add: updateEmployee_unparsed)
next
  case (Some body)
  show ?thesis
  proof (cases "\<exists>f \<in> set update_fields. falsy (body f)")
    case True
    then show ?thesis using Some by (simp add: updateEmployee_rejects)
  next
    case False
    then have "\<forall>f \<in> set update_fields. \<not> falsy (body f)" by simp
    then show ?thesis using Some
      by (simp add: updateEmployee_updates split: sum.split prod.split option.split)
  qed
qed

lemma deleteEmployee_status:
  "status (fst (deleteEmployee Employee employee_id db)) \<in> {200, 400, 404}"
  unfolding deleteEmployee_def by (simp split: sum.split option.split prod.split)

section \<open>Facts about the in-memory store\<close>

lemma find_has_id_None:
  "List.find (has_id i) docs = None \<longleftrightarrow> (\<forall>d \<in> set docs. \<not> has_id i d)"
  by (auto simp: find_None_iff)

lemma find_has_id_Some:
  assumes "\<exists>d \<in> set docs. has_id i d"
  shows "\<exists>d \<in> set docs. has_id i d \<and> List.find (has_id i) docs = Some d"
proof (cases "List.find (has_id i) docs")
  case None
  with assms show ?thesis by (simp add: find_None_iff)
next
  case (Some d)
  then have "has_id i d" "d \<in> set docs"
    by (auto simp: find_Some_iff)
  with Some show ?thesis by blast
qed

lemma extract_has_id_None:
  assumes "\<forall>d \<in> set docs. \<not> has_id i d"
  shows "List.extract (has_id i) docs = None"
  using assms by (simp add: extract_None_iff)

lemma extract_has_id_Some:
  assumes "\<exists>d \<in> set docs. has_id i d"
  shows "\<exists>before d after. docs = before @ d # after \<and> has_id i d \<and>
           (\<forall>x \<in> set before. \<not> has_id i x) \<and>
           List.extract (has_id i) docs = Some (before, d, after)"
proof (cases "List.extract (has_id i) docs")
  case None
  with assms show ?thesis by (simp add: extract_None_iff)
next
  case (Some t)
  obtain before d after where t: "t = (before, d, after)"
    by (cases t) auto
  from Some t have "docs = before @ d # after \<and> has_id i d \<and>
      (\<forall>x \<in> set before. \<not> has_id i x)"
    by (auto simp: extract_Some_iff)
  with Some t show ?thesis by blast
qed

lemma duplicate_key_empty: "duplicate_key ks doc [] = None"
  by (induction ks) (simp_all add: duplicate_key_def)

lemma findOneAndUpdate_mem: "findOneAndUpdate (mem m) = mem_findOneAndUpdate m"
  by (simp add: mem_def)

lemma findOneAndDelete_mem: "findOneAndDelete (mem m) = mem_findOneAndDelete"
  by (simp add: mem_def)

lemma update_fields_paths:
  assumes "k \<in> set update_fields"
  shows "\<exists>p. map_of employeeSchema k = Some p \<and> (k, p) \<in> set employeeSchema"
proof -
  from assms have "map_of employeeSchema k \<noteq> None"
    by (auto simp: update_fields_def employeeSchema_def)
  then obtain p where "map_of employeeSchema k = Some p" by blast
  then show ?thesis by (blast dest: map_of_SomeD)
qed

lemma mem_update_accepted:
  assumes "\<not> isl (mem_findOneAndUpdate m i upd docs)"
  shows "List.find (\<lambda>(k, p). cast_failed m p (upd k)) employeeSchema = None"
proof (cases "List.find (\<lambda>(k, p). cast_failed m p (upd k)) employeeSchema")
  case None
  then show ?thesis .
next
  case (Some kp)
  then have "isl (mem_findOneAndUpdate m i upd docs)"
    by (cases kp) (simp add: mem_findOneAndUpdate_def)
  with assms show ?thesis by simp
qed

text \<open>
  An accepted update of five truthy fields sets them to the cast values of the body and
  leaves the other properties of the document as they were.
\<close>

lemma update_doc:
  assumes truthy: "\<forall>f \<in> set update_fields. \<not> falsy (body f)"
    and accepted: "\<not> isl (mem_findOneAndUpdate m i (body |` set update_fields) docs)"
  shows "d ++ cast_object m (body |` set update_fields) =
    set_fields update_fields (cast_object m body) d"
proof (rule ext)
  fix k
  show "(d ++ cast_object m (body |` set update_fields)) k =
    set_fields update_fields (cast_object m body) d k"
  proof (cases "k \<in> set update_fields")
    case True
    then obtain p where p: "map_of employeeSchema k = Some p" "(k, p) \<in> set employeeSchema"
      using update_fields_paths by blast
    from True truthy have "\<not> falsy (body k)" by blast
    then obtain v where v: "body k = Some v" by (cases "body k") simp_all
    from mem_update_accepted [OF accepted] p(2)
    have "\<not> cast_failed m p ((body |` set update_fields) k)"
      by (auto simp: find_None_iff)
    with True v obtain c where c: "cast_value m (path_type p) v = Some c"
      by (auto simp: cast_failed_def)
    with True p(1) v show ?thesis
      by (simp add: map_add_def cast_object_def set_fields_def)
  next
    case False
    then have "cast_object m (body |` set update_fields) k = None"
      by (simp add: cast_object_def split: option.split)
    with False show ?thesis
      by (simp add: map_add_def set_fields_def)
  qed
qed

lemma mem_update_missing:
  assumes "\<forall>d \<in> set docs. \<not> has_id i d" and "\<not> isl (mem_findOneAndUpdate m i upd docs)"
  shows "mem_findOneAndUpdate m i upd docs = Inr (None, docs)"
proof -
  have "List.extract (has_id i) docs = None"
    using assms(1) by (rule extract_has_id_None)
  moreover note mem_update_accepted [OF assms(2)]
  ultimately show ?thesis
    by (simp add: mem_findOneAndUpdate_def)
qed

lemma mem_update_found:
  assumes "\<exists>d \<in> set docs. has_id i d" and "\<not> isl (mem_findOneAndUpdate m i upd docs)"
  shows "\<exists>before d after. docs = before @ d # after \<and> has_id i d \<and>
           (\<forall>x \<in> set before. \<not> has_id i x) \<and>
           mem_findOneAndUpdate m i upd docs =
             Inr (Some (d ++ cast_object m upd), before @ (d ++ cast_object m upd) # after)"
proof -
  obtain before d after where ex: "docs = before @ d # after" "has_id i d"
    "\<forall>x \<in> set before. \<not> has_id i x"
    "List.extract (has_id i) docs = Some (before, d, after)"
    using assms(1) extract_has_id_Some by blast
  note cast = mem_update_accepted [OF assms(2)]
  have "mem_findOneAndUpdate m i upd docs =
       Inr (Some (d ++ cast_object m upd), before @ (d ++ cast_object m upd) # after)"
  proof (cases "duplicate_key (filter (\<lambda>k. upd k \<noteq> None) unique_paths)
      (d ++ cast_object m upd) (before @ after)")
    case None
    with cast ex(4) show ?thesis
      by (simp add: mem_findOneAndUpdate_def Let_def)
  next
    case (Some k)
    with cast ex(4) have "isl (mem_findOneAndUpdate m i upd docs)"
      by (simp add: mem_findOneAndUpdate_def Let_def)
    with assms(2) show ?thesis by simp
  qed
  with ex show ?thesis by blast
qed

lemma updateEmployee_mem:
  assumes "\<forall>f \<in> set update_fields. \<not> falsy (body f)"
  shows "updateEmployee (mem m) employee_id (Some body) docs =
    (case mem_findOneAndUpdate m employee_id (body |` set update_fields) docs of
       Inl error \<Rightarrow> (Response 400 (ErrorMessage error), docs)
     | Inr (updatedEmployee, db') \<Rightarrow>
         (case updatedEmployee of
            None \<Rightarrow>
              (Response 404
                 (Message (''Employee with employee_id '' @ employee_id @ '' not found'')),
               db')
          | Some e \<Rightarrow> (Response 200 (Document e), db')))"
  using updateEmployee_updates [OF assms, of "mem m" employee_id docs]
  by (simp add: findOneAndUpdate_mem)

section \<open>The sample requests on the store\<close>

lemma has_id_alex_doc [simp]: "has_id i alex_doc \<longleftrightarrow> i = ''emp123''"
  by (auto simp: has_id_def alex_doc_def)

lemma has_id_sam_doc [simp]: "has_id i sam_doc \<longleftrightarrow> i = ''emp456''"
  by (auto simp: has_id_def sam_doc_def)

lemma alex_truthy: "\<forall>f \<in> set create_fields. \<not> falsy (alex f)"
  by (simp add: create_fields_def alex_def)

lemma promotion_truthy: "\<forall>f \<in> set update_fields. \<not> falsy (promotion f)"
  by (simp add: update_fields_def promotion_def)

lemma bad_date_truthy: "\<forall>f \<in> set update_fields. \<not> falsy (bad_date f)"
  by (simp add: update_fields_def bad_date_def promotion_def)

lemma validate_alex: "validate sample_odm (alex |` set create_fields) = []"
  by code_simp

lemma validate_blank_email: "validate sample_odm (blank_email |` set create_fields) = []"
  by code_simp

lemma calendar_date_2024_07_03: "calendar_date ''2024-07-03''"
  by code_simp

lemma alex_stored:
  "(new_Employee sample_odm [] (alex |` set create_fields))(''__v'' \<mapsto> JNum 0) = alex_doc"
  by (rule ext)
    (simp add: new_Employee_def cast_object_def sample_odm_def employeeSchema_def plain_def
      create_fields_def restrict_map_def alex_def alex_doc_def calendar_date_2024_07_03
      del: calendar_date.simps)

lemma save_alex:
  "save (mem sample_odm) (alex |` set create_fields) [] = Inr (alex_doc, [alex_doc])"
  by (simp add: mem_def mem_save_def validate_alex duplicate_key_empty alex_stored)

lemma save_blank_email:
  "\<not> isl (save (mem sample_odm) (blank_email |` set create_fields) [])"
  by (simp add: mem_def mem_save_def validate_blank_email duplicate_key_empty Let_def)

lemma promotion_accepted:
  "\<not> isl (mem_findOneAndUpdate sample_odm ''emp123'' (promotion |` set update_fields)
      [alex_doc, sam_doc])"
  by code_simp

lemma promotion_accepted_missing:
  "\<not> isl (mem_findOneAndUpdate sample_odm ''emp999'' (promotion |` set update_fields)
      [alex_doc, sam_doc])"
  by code_simp

lemma bad_date_rejected:
  "mem_findOneAndUpdate sample_odm ''emp123'' (bad_date |` set update_fields)
     [alex_doc, sam_doc] = Inl (CastError ''date_hired'')"
proof -
  have "case mem_findOneAndUpdate sample_odm ''emp123'' (bad_date |` set update_fields)
          [alex_doc, sam_doc] of
          Inl e \<Rightarrow> e = CastError ''date_hired'' | Inr r \<Rightarrow> False"
    by code_simp
  then show ?thesis
    by (simp split: sum.splits)
qed

lemma promotion_cast_date:
  "cast_object sample_odm promotion ''date_hired'' = Some (JStr ''2024-07-03T00:00:00.000Z'')"
  by code_simp

lemma promote_alex_store:
  "findOneAndUpdate (mem sample_odm) ''emp123'' (promotion |` set update_fields)
     [alex_doc, sam_doc] =
     Inr (Some (set_fields update_fields (cast_object sample_odm promotion) alex_doc),
          [set_fields update_fields (cast_object sample_odm promotion) alex_doc, sam_doc])"
proof -
  have "\<exists>d \<in> set [alex_doc, sam_doc]. has_id ''emp123'' d" by simp
  from mem_update_found [OF this promotion_accepted]
  obtain before d after where ex: "[alex_doc, sam_doc] = before @ d # after"
    "has_id ''emp123'' d"
    "mem_findOneAndUpdate sample_odm ''emp123'' (promotion |` set update_fields)
       [alex_doc, sam_doc] =
       Inr (Some (d ++ cast_object sample_odm (promotion |` set update_fields)),
            before @ (d ++ cast_object sample_odm (promotion |` set update_fields)) # after)"
    by blast
  from ex(1,2) have "before = [] \<and> d = alex_doc \<and> after = [sam_doc]"
    by (auto simp: Cons_eq_append_conv)
  with ex(3) show ?thesis
    by (simp add: findOneAndUpdate_mem update_doc [OF promotion_truthy promotion_accepted])
qed

lemma promote_alex:
  "updateEmployee (mem sample_odm) ''emp123'' (Some promotion) [alex_doc, sam_doc] =
     (Response 200 (Document (set_fields update_fields (cast_object sample_odm promotion) alex_doc)),
      [set_fields update_fields (cast_object sample_odm promotion) alex_doc, sam_doc])"
  using promote_alex_store
  by (simp add: updateEmployee_updates [OF promotion_truthy])

section \<open>The claims\<close>

subsection \<open>Reading the collection\<close>

text \<open>
  C2, as the code has it. On a collection that is not empty the read-all handler answers
  200 with the list of all its documents, which is what the driver's \<^verbatim>\<open>find\<close>
  returned; on the empty collection it answers 404 with the message
  \<^verbatim>\<open>No employees found\<close> (the handler's own guard on the length of the list). The
  collection is unchanged in both cases.
\<close>

theorem readEmployees_nonempty_or_404:
  "readEmployees (mem m) docs =
     (if docs = [] then Response 404 (Message ''No employees found'')
      else Response 200 (Documents docs), docs) \<and>
   (find_docs Employee db = Inr (e # es) \<longrightarrow>
      readEmployees Employee db = (Response 200 (Documents (e # es)), db))"
  by (simp add: readEmployees_def mem_def mem_find_def)

theorem readEmployees_nonempty_witness:
  "find_docs (mem sample_odm) [alex_doc, sam_doc] = Inr [alex_doc, sam_doc] \<and>
   readEmployees (mem sample_odm) [alex_doc, sam_doc] =
     (Response 200 (Documents [alex_doc, sam_doc]), [alex_doc, sam_doc])"
  using readEmployees_nonempty_or_404 [where m = sample_odm and docs = "[alex_doc, sam_doc]"
      and Employee = "mem sample_odm" and db = "[alex_doc, sam_doc]" and e = alex_doc
      and es = "[sam_doc]"]
  by (simp add: mem_def mem_find_def)

text \<open>
  The claim as stated promises 200 with the list for every state of the collection,
  the empty one included; on the empty collection the answer is 404.
\<close>

theorem readEmployees_empty_counterexample:
  "find_docs (mem sample_odm) [] = Inr [] \<and>
   readEmployees (mem sample_odm) [] = (Response 404 (Message ''No employees found''), []) \<and>
   status (fst (readEmployees (mem sample_odm) [])) \<noteq> 200"
  by (simp add: readEmployees_def mem_def mem_find_def)

text \<open>
  C5. For any driver, the read-by-id handler answers 404 with a not-found message when
  the lookup finds nothing and 200 with the document when it finds one. Over the store:
  it answers 404 with that message when no document of the collection has the
  employee_id of the URL, and 200 with a document of the collection that has it when
  there is one (the first, which is the only one under the unique index); the collection
  is unchanged in both cases.
\<close>

theorem readEmployee_lookup:
  "(findOne Employee employee_id db = Inr None \<longrightarrow>
      readEmployee Employee employee_id db =
        (Response 404 (Message (''Employee with ID '' @ employee_id @ '' not found'')), db)) \<and>
   (findOne Employee employee_id db = Inr (Some e) \<longrightarrow>
      readEmployee Employee employee_id db = (Response 200 (Document e), db)) \<and>
   ((\<forall>d \<in> set docs. \<not> has_id employee_id d) \<longrightarrow>
      readEmployee (mem m) employee_id docs =
        (Response 404 (Message (''Employee with ID '' @ employee_id @ '' not found'')), docs)) \<and>
   ((\<exists>d \<in> set docs. has_id employee_id d) \<longrightarrow>
      (\<exists>d \<in> set docs. has_id employee_id d \<and>
         readEmployee (mem m) employee_id docs = (Response 200 (Document d), docs)))"
proof (intro conjI impI)
  assume "findOne Employee employee_id db = Inr None"
  then show "readEmployee Employee employee_id db =
      (Response 404 (Message (''Employee with ID '' @ employee_id @ '' not found'')), db)"
    by (simp add: readEmployee_def)
next
  assume "findOne Employee employee_id db = Inr (Some e)"
  then show "readEmployee Employee employee_id db = (Response 200 (Document e), db)"
    by (simp add: readEmployee_def)
next
  assume "\<forall>d \<in> set docs. \<not> has_id employee_id d"
  then have "List.find (has_id employee_id) docs = None"
    by (simp add: find_has_id_None)
  then show "readEmployee (mem m) employee_id docs =
      (Response 404 (Message (''Employee with ID '' @ employee_id @ '' not found'')), docs)"
    by (simp add: readEmployee_def mem_def mem_findOne_def)
next
  assume "\<exists>d \<in> set docs. has_id employee_id d"
  then obtain d where "d \<in> set docs" "has_id employee_id d"
    "List.find (has_id employee_id) docs = Some d"
    using find_has_id_Some by blast
  then show "\<exists>d \<in> set docs. has_id employee_id d \<and>
      readEmployee (mem m) employee_id docs = (Response 200 (Document d), docs)"
    by (auto simp: readEmployee_def mem_def mem_findOne_def)
qed

theorem readEmployee_lookup_witness:
  "findOne (mem sample_odm) ''emp999'' [alex_doc, sam_doc] = Inr None \<and>
   findOne (mem sample_odm) ''emp456'' [alex_doc, sam_doc] = Inr (Some sam_doc) \<and>
   readEmployee (mem sample_odm) ''emp999'' [alex_doc, sam_doc] =
     (Response 404 (Message ''Employee with ID emp999 not found''), [alex_doc, sam_doc]) \<and>
   has_id ''emp456'' sam_doc \<and>
   readEmployee (mem sample_odm) ''emp456'' [alex_doc, sam_doc] =
     (Response 200 (Document sam_doc), [alex_doc, sam_doc])"
  using readEmployee_lookup [where m = sample_odm and docs = "[alex_doc, sam_doc]"
      and employee_id = "''emp999''", THEN conjunct2, THEN conjunct2]
    readEmployee_lookup [where m = sample_odm and docs = "[alex_doc, sam_doc]"
      and employee_id = "''emp456''", THEN conjunct2, THEN conjunct2]
  by (simp add: mem_def mem_findOne_def)

subsection \<open>Deleting\<close>

text \<open>
  C4. For any driver, the delete handler reports what \<^verbatim>\<open>findOneAndDelete\<close> did:
  200 with a message that names the employee_id when it returned the deleted document,
  404 when it returned none. Over the store: when a document with the employee_id of the
  URL exists, exactly the first such document is removed (the documents before and after
  it stay, in their order) and the answer is 200 with that message; when none exists the
  answer is 404 and the collection is unchanged.
\<close>

theorem deleteEmployee_delete_and_report:
  "(findOneAndDelete Employee employee_id db = Inr (Some e, db') \<longrightarrow>
      deleteEmployee Employee employee_id db =
        (Response 200
           (Message (''Employee with employee_id '' @ employee_id @ '' deleted successfully'')),
         db')) \<and>
   (findOneAndDelete Employee employee_id db = Inr (None, db') \<longrightarrow>
      deleteEmployee Employee employee_id db =
        (Response 404 (Message (''Employee with employee_id '' @ employee_id @ '' not found'')),
         db')) \<and>
   ((\<exists>d \<in> set docs. has_id employee_id d) \<longrightarrow>
      (\<exists>before d after. docs = before @ d # after \<and> has_id employee_id d \<and>
         (\<forall>x \<in> set before. \<not> has_id employee_id x) \<and>
         deleteEmployee (mem m) employee_id docs =
           (Response 200
              (Message (''Employee with employee_id '' @ employee_id @ '' deleted successfully'')),
            before @ after))) \<and>
   ((\<forall>d \<in> set docs. \<not> has_id employee_id d) \<longrightarrow>
      deleteEmployee (mem m) employee_id docs =
        (Response 404 (Message (''Employee with employee_id '' @ employee_id @ '' not found'')),
         docs))"
proof (intro conjI impI)
  assume "findOneAndDelete Employee employee_id db = Inr (Some e, db')"
  then show "deleteEmployee Employee employee_id db =
      (Response 200
         (Message (''Employee with employee_id '' @ employee_id @ '' deleted successfully'')),
       db')"
    by (simp add: deleteEmployee_def)
next
  assume "findOneAndDelete Employee employee_id db = Inr (None, db')"
  then show "deleteEmployee Employee employee_id db =
      (Response 404 (Message (''Employee with employee_id '' @ employee_id @ '' not found'')),
       db')"
    by (simp add: deleteEmployee_def)
next
  assume "\<exists>d \<in> set docs. has_id employee_id d"
  then obtain before d after where "docs = before @ d # after" "has_id employee_id d"
    "\<forall>x \<in> set before. \<not> has_id employee_id x"
    "List.extract (has_id employee_id) docs = Some (before, d, after)"
    using extract_has_id_Some by blast
  then show "\<exists>before d after. docs = before @ d # after \<and> has_id employee_id d \<and>
         (\<forall>x \<in> set before. \<not> has_id employee_id x) \<and>
         deleteEmployee (mem m) employee_id docs =
           (Response 200
              (Message (''Employee with employee_id '' @ employee_id @ '' deleted successfully'')),
            before @ after)"
    by (intro exI [of _ before] exI [of _ d] exI [of _ after])
       (simp add: deleteEmployee_def mem_def mem_findOneAndDelete_def)
next
  assume "\<forall>d \<in> set docs. \<not> has_id employee_id d"
  then have "List.extract (has_id employee_id) docs = None"
    by (rule extract_has_id_None)
  then show "deleteEmployee (mem m) employee_id docs =
        (Response 404 (Message (''Employee with employee_id '' @ employee_id @ '' not found'')),
         docs)"
    by (simp add: deleteEmployee_def mem_def mem_findOneAndDelete_def)
qed

theorem deleteEmployee_witness:
  "findOneAndDelete (mem sample_odm) ''emp123'' [alex_doc, sam_doc] =
     Inr (Some alex_doc, [sam_doc]) \<and>
   findOneAndDelete (mem sample_odm) ''emp999'' [alex_doc, sam_doc] =
     Inr (None, [alex_doc, sam_doc]) \<and>
   has_id ''emp123'' alex_doc \<and>
   deleteEmployee (mem sample_odm) ''emp123'' [alex_doc, sam_doc] =
     (Response 200 (Message ''Employee with employee_id emp123 deleted successfully''), [sam_doc]) \<and>
   deleteEmployee (mem sample_odm) ''emp999'' [alex_doc, sam_doc] =
     (Response 404 (Message ''Employee with employee_id emp999 not found''), [alex_doc, sam_doc])"
  using deleteEmployee_delete_and_report [where m = sample_odm and docs = "[alex_doc, sam_doc]"
      and employee_id = "''emp123''", THEN conjunct2, THEN conjunct2]
    deleteEmployee_delete_and_report [where m = sample_odm and docs = "[alex_doc, sam_doc]"
      and employee_id = "''emp999''", THEN conjunct2, THEN conjunct2]
  by (auto simp: Cons_eq_append_conv findOneAndDelete_mem mem_findOneAndDelete_def
      extract_Nil_code extract_Cons_code)

subsection \<open>Creating\<close>

text \<open>
  C1, as the code has it. For a request whose body was parsed into an object: if at
  least one of the six body fields employee_id, name, email, job_title, age, date_hired
  is missing, the create handler answers 400 with the message
  \<^verbatim>\<open>All fields are required.\<close> and the collection is unchanged, for any driver; if
  all six fields have truthy values (the handler tests \<^verbatim>\<open>!field\<close>, not presence)
  and the driver's \<^verbatim>\<open>save\<close> of the new document succeeds, the handler answers 201
  with the saved document, and the collection is the one \<^verbatim>\<open>save\<close> left.
\<close>

theorem createEmployee_validates_then_saves:
  "((\<exists>f \<in> set create_fields. \<not> present body f) \<longrightarrow>
      createEmployee Employee (Some body) db =
        (Response 400 (Message ''All fields are required.''), db)) \<and>
   ((\<forall>f \<in> set create_fields. \<not> falsy (body f)) \<and>
    save Employee (body |` set create_fields) db = Inr (savedEmployee, db') \<longrightarrow>
      createEmployee Employee (Some body) db = (Response 201 (Document savedEmployee), db'))"
proof (intro conjI impI)
  assume "\<exists>f \<in> set create_fields. \<not> present body f"
  then have "\<exists>f \<in> set create_fields. falsy (body f)"
    by (rule missing_falsy)
  then show "createEmployee Employee (Some body) db =
      (Response 400 (Message ''All fields are required.''), db)"
    by (rule createEmployee_rejects)
next
  assume a: "(\<forall>f \<in> set create_fields. \<not> falsy (body f)) \<and>
    save Employee (body |` set create_fields) db = Inr (savedEmployee, db')"
  then have "\<forall>f \<in> set create_fields. \<not> falsy (body f)" ..
  from createEmployee_saves [OF this, of Employee db] a
  show "createEmployee Employee (Some body) db = (Response 201 (Document savedEmployee), db')"
    by simp
qed

theorem createEmployee_witness:
  "\<not> present (alex(''age'' := None)) ''age'' \<and>
   createEmployee (mem sample_odm) (Some (alex(''age'' := None))) [] =
     (Response 400 (Message ''All fields are required.''), []) \<and>
   \<not> falsy (alex ''employee_id'') \<and> \<not> falsy (alex ''name'') \<and>
   \<not> falsy (alex ''email'') \<and> \<not> falsy (alex ''job_title'') \<and>
   \<not> falsy (alex ''age'') \<and> \<not> falsy (alex ''date_hired'') \<and>
   save (mem sample_odm) (alex |` set create_fields) [] = Inr (alex_doc, [alex_doc]) \<and>
   createEmployee (mem sample_odm) (Some alex) [] =
     (Response 201 (Document alex_doc), [alex_doc])"
proof -
  have absent: "\<not> present (alex(''age'' := None)) ''age''"
    by (simp add: present_def)
  then have missing: "\<exists>f \<in> set create_fields. \<not> present (alex(''age'' := None)) f"
    by (simp add: create_fields_def)
  note rejected = createEmployee_validates_then_saves
      [where body = "alex(''age'' := None)" and Employee = "mem sample_odm" and db = "[]",
        THEN conjunct1, THEN mp, OF missing]
  from alex_truthy save_alex
  have pre: "(\<forall>f \<in> set create_fields. \<not> falsy (alex f)) \<and>
    save (mem sample_odm) (alex |` set create_fields) [] = Inr (alex_doc, [alex_doc])"
    by (rule conjI)
  note created = createEmployee_validates_then_saves
      [where body = alex and Employee = "mem sample_odm" and db = "[]",
        THEN conjunct2, THEN mp, OF pre]
  have "\<not> falsy (alex ''employee_id'') \<and> \<not> falsy (alex ''name'') \<and>
      \<not> falsy (alex ''email'') \<and> \<not> falsy (alex ''job_title'') \<and>
      \<not> falsy (alex ''age'') \<and> \<not> falsy (alex ''date_hired'')"
    by (simp add: alex_def)
  with absent rejected save_alex created show ?thesis by simp
qed

text \<open>
  The claim as stated fails in two ways. It asks only that the six fields be present: a
  body whose six fields are all present, with the empty string as email, is answered 400,
  although the store would save its document (the schema does not require an email, and
  the \<^verbatim>\<open>match\<close> validator skips the empty string). And it speaks of every request:
  a request without a parsed body, where all six fields are missing, is answered 400 by
  the \<^verbatim>\<open>catch\<close> block with the message of the TypeError, not with
  \<^verbatim>\<open>All fields are required.\<close>
\<close>

theorem createEmployee_present_counterexample:
  "present blank_email ''employee_id'' \<and> present blank_email ''name'' \<and>
   present blank_email ''email'' \<and> present blank_email ''job_title'' \<and>
   present blank_email ''age'' \<and> present blank_email ''date_hired'' \<and>
   \<not> isl (save (mem sample_odm) (blank_email |` set create_fields) []) \<and>
   createEmployee (mem sample_odm) (Some blank_email) [] =
     (Response 400 (Message ''All fields are required.''), []) \<and>
   createEmployee (mem sample_odm) None [] =
     (Response 400 (ErrorMessage (TypeError ''employee_id'')), []) \<and>
   ErrorMessage (TypeError ''employee_id'') \<noteq> Message ''All fields are required.''"
proof -
  have "\<exists>f \<in> set create_fields. falsy (blank_email f)"
    by (simp add: create_fields_def blank_email_def)
  then have "createEmployee (mem sample_odm) (Some blank_email) [] =
     (Response 400 (Message ''All fields are required.''), [])"
    by (rule createEmployee_rejects)
  moreover have "present blank_email ''employee_id'' \<and> present blank_email ''name'' \<and>
   present blank_email ''email'' \<and> present blank_email ''job_title'' \<and>
   present blank_email ''age'' \<and> present blank_email ''date_hired''"
    by (simp add: present_def blank_email_def alex_def)
  ultimately show ?thesis
    using save_blank_email by (simp add: createEmployee_unparsed)
qed

text \<open>
  C10. A required field that is present but equal to 0 or to the empty string is
  rejected like a missing one, by the create handler for each of its six fields and by
  the update handler for each of its five: the answer is 400 with the message
  \<^verbatim>\<open>All fields are required.\<close>, the database is unchanged, and the answer is the
  one the same request gets with the field removed. This holds for any driver.
\<close>

theorem falsy_fields_rejected:
  "(f \<in> set create_fields \<and> (body f = Some (JNum 0) \<or> body f = Some (JStr [])) \<longrightarrow>
      createEmployee Employee (Some body) db =
        (Response 400 (Message ''All fields are required.''), db) \<and>
      createEmployee Employee (Some body) db = createEmployee Employee (Some (body(f := None))) db) \<and>
   (f \<in> set update_fields \<and> (body f = Some (JNum 0) \<or> body f = Some (JStr [])) \<longrightarrow>
      updateEmployee Employee employee_id (Some body) db =
        (Response 400 (Message ''All fields are required.''), db) \<and>
      updateEmployee Employee employee_id (Some body) db =
        updateEmployee Employee employee_id (Some (body(f := None))) db)"
proof (intro conjI impI)
  assume a: "f \<in> set create_fields \<and> (body f = Some (JNum 0) \<or> body f = Some (JStr []))"
  then have f: "f \<in> set create_fields" and "falsy (body f)" by auto
  then have "\<exists>g \<in> set create_fields. falsy (body g)" by blast
  then show "createEmployee Employee (Some body) db =
      (Response 400 (Message ''All fields are required.''), db)"
    by (rule createEmployee_rejects)
  from f \<open>falsy (body f)\<close>
  show "createEmployee Employee (Some body) db = createEmployee Employee (Some (body(f := None))) db"
    by (simp add: createEmployee_ignores_falsy)
next
  assume a: "f \<in> set update_fields \<and> (body f = Some (JNum 0) \<or> body f = Some (JStr []))"
  then have f: "f \<in> set update_fields" and "falsy (body f)" by auto
  then have "\<exists>g \<in> set update_fields. falsy (body g)" by blast
  then show "updateEmployee Employee employee_id (Some body) db =
      (Response 400 (Message ''All fields are required.''), db)"
    by (rule updateEmployee_rejects)
  from f \<open>falsy (body f)\<close>
  show "updateEmployee Employee employee_id (Some body) db =
      updateEmployee Employee employee_id (Some (body(f := None))) db"
    by (simp add: updateEmployee_ignores_falsy)
qed

theorem falsy_fields_witness:
  "''email'' \<in> set create_fields \<and> blank_email ''email'' = Some (JStr []) \<and>
   createEmployee (mem sample_odm) (Some blank_email) [] =
     (Response 400 (Message ''All fields are required.''), []) \<and>
   ''age'' \<in> set update_fields \<and> zero_age ''age'' = Some (JNum 0) \<and>
   updateEmployee (mem sample_odm) ''emp123'' (Some zero_age) [alex_doc, sam_doc] =
     (Response 400 (Message ''All fields are required.''), [alex_doc, sam_doc])"
  using falsy_fields_rejected [where f = "''email''" and body = blank_email
      and Employee = "mem sample_odm" and db = "[]"]
    falsy_fields_rejected [where f = "''age''" and body = zero_age
      and Employee = "mem sample_odm" and db = "[alex_doc, sam_doc]"
      and employee_id = "''emp123''"]
  by (simp add: create_fields_def update_fields_def blank_email_def zero_age_def)

subsection \<open>Updating\<close>

text \<open>
  C3, as the code has it. If one of the five body fields name, email, job_title, age,
  date_hired is missing, or the request has no parsed body, the update handler answers
  400 and the database is unchanged, for any driver. If the five fields have truthy
  values, the handler sends them, and nothing else, to \<^verbatim>\<open>findOneAndUpdate\<close> and
  answers 200 with the document it returns, 404 when it returns none, for any driver.
  Over the store, for any cast, when it accepts the update (every value can be cast to
  the type of its path and no unique index is broken): when no document has the
  employee_id of the URL the answer is 404 and the collection is unchanged; when one
  has, the first such document gets the five fields set to the body's values as cast to
  the types of the schema, keeps its place, and the answer is 200 with the document as
  it is after the update.
\<close>

theorem updateEmployee_replace_on_update:
  "((\<exists>f \<in> set update_fields. \<not> present body f) \<longrightarrow>
      updateEmployee Employee employee_id (Some body) db =
        (Response 400 (Message ''All fields are required.''), db)) \<and>
   updateEmployee Employee employee_id None db =
     (Response 400 (ErrorMessage (TypeError ''name'')), db) \<and>
   ((\<forall>f \<in> set update_fields. \<not> falsy (body f)) \<longrightarrow>
      (findOneAndUpdate Employee employee_id (body |` set update_fields) db = Inr (Some e, db')
         \<longrightarrow> updateEmployee Employee employee_id (Some body) db =
           (Response 200 (Document e), db')) \<and>
      (findOneAndUpdate Employee employee_id (body |` set update_fields) db = Inr (None, db')
         \<longrightarrow> updateEmployee Employee employee_id (Some body) db =
           (Response 404
              (Message (''Employee with employee_id '' @ employee_id @ '' not found'')),
            db'))) \<and>
   ((\<forall>f \<in> set update_fields. \<not> falsy (body f)) \<and>
    \<not> isl (findOneAndUpdate (mem m) employee_id (body |` set update_fields) docs) \<longrightarrow>
      ((\<forall>d \<in> set docs. \<not> has_id employee_id d) \<longrightarrow>
         updateEmployee (mem m) employee_id (Some body) docs =
           (Response 404
              (Message (''Employee with employee_id '' @ employee_id @ '' not found'')),
            docs)) \<and>
      ((\<exists>d \<in> set docs. has_id employee_id d) \<longrightarrow>
         (\<exists>before d after. docs = before @ d # after \<and> has_id employee_id d \<and>
            (\<forall>x \<in> set before. \<not> has_id employee_id x) \<and>
            updateEmployee (mem m) employee_id (Some body) docs =
              (Response 200 (Document (set_fields update_fields (cast_object m body) d)),
               before @ set_fields update_fields (cast_object m body) d # after))))"
proof (intro conjI impI)
  assume "\<exists>f \<in> set update_fields. \<not> present body f"
  then have "\<exists>f \<in> set update_fields. falsy (body f)"
    by (rule missing_falsy)
  then show "updateEmployee Employee employee_id (Some body) db =
      (Response 400 (Message ''All fields are required.''), db)"
    by (rule updateEmployee_rejects)
next
  show "updateEmployee Employee employee_id None db =
     (Response 400 (ErrorMessage (TypeError ''name'')), db)"
    by (rule updateEmployee_unparsed)
next
  assume truthy: "\<forall>f \<in> set update_fields. \<not> falsy (body f)"
    and "findOneAndUpdate Employee employee_id (body |` set update_fields) db = Inr (Some e, db')"
  then show "updateEmployee Employee employee_id (Some body) db =
      (Response 200 (Document e), db')"
    by (simp add: updateEmployee_updates [OF truthy])
next
  assume truthy: "\<forall>f \<in> set update_fields. \<not> falsy (body f)"
    and "findOneAndUpdate Employee employee_id (body |` set update_fields) db = Inr (None, db')"
  then show "updateEmployee Employee employee_id (Some body) db =
      (Response 404 (Message (''Employee with employee_id '' @ employee_id @ '' not found'')),
       db')"
    by (simp add: updateEmployee_updates [OF truthy])
next
  assume a: "(\<forall>f \<in> set update_fields. \<not> falsy (body f)) \<and>
    \<not> isl (findOneAndUpdate (mem m) employee_id (body |` set update_fields) docs)"
    and none: "\<forall>d \<in> set docs. \<not> has_id employee_id d"
  from a have truthy: "\<forall>f \<in> set update_fields. \<not> falsy (body f)"
    and ok: "\<not> isl (mem_findOneAndUpdate m employee_id (body |` set update_fields) docs)"
    by (simp_all add: findOneAndUpdate_mem)
  from mem_update_missing [OF none ok]
  show "updateEmployee (mem m) employee_id (Some body) docs =
      (Response 404 (Message (''Employee with employee_id '' @ employee_id @ '' not found'')),
       docs)"
    by (simp add: updateEmployee_mem [OF truthy])
next
  assume a: "(\<forall>f \<in> set update_fields. \<not> falsy (body f)) \<and>
    \<not> isl (findOneAndUpdate (mem m) employee_id (body |` set update_fields) docs)"
    and some: "\<exists>d \<in> set docs. has_id employee_id d"
  from a have truthy: "\<forall>f \<in> set update_fields. \<not> falsy (body f)"
    and ok: "\<not> isl (mem_findOneAndUpdate m employee_id (body |` set update_fields) docs)"
    by (simp_all add: findOneAndUpdate_mem)
  from mem_update_found [OF some ok]
  obtain before d after where ex: "docs = before @ d # after" "has_id employee_id d"
    "\<forall>x \<in> set before. \<not> has_id employee_id x"
    "mem_findOneAndUpdate m employee_id (body |` set update_fields) docs =
       Inr (Some (d ++ cast_object m (body |` set update_fields)),
            before @ (d ++ cast_object m (body |` set update_fields)) # after)"
    by blast
  from ex(4) have "updateEmployee (mem m) employee_id (Some body) docs =
      (Response 200 (Document (set_fields update_fields (cast_object m body) d)),
       before @ set_fields update_fields (cast_object m body) d # after)"
    by (simp add: updateEmployee_mem [OF truthy] update_doc [OF truthy ok])
  with ex(1-3)
  show "\<exists>before d after. docs = before @ d # after \<and> has_id employee_id d \<and>
      (\<forall>x \<in> set before. \<not> has_id employee_id x) \<and>
      updateEmployee (mem m) employee_id (Some body) docs =
        (Response 200 (Document (set_fields update_fields (cast_object m body) d)),
         before @ set_fields update_fields (cast_object m body) d # after)"
    by blast
qed

theorem updateEmployee_witness:
  "\<not> present (promotion(''age'' := None)) ''age'' \<and>
   updateEmployee (mem sample_odm) ''emp123'' (Some (promotion(''age'' := None)))
     [alex_doc, sam_doc] =
     (Response 400 (Message ''All fields are required.''), [alex_doc, sam_doc]) \<and>
   \<not> falsy (promotion ''name'') \<and> \<not> falsy (promotion ''email'') \<and>
   \<not> falsy (promotion ''job_title'') \<and> \<not> falsy (promotion ''age'') \<and>
   \<not> falsy (promotion ''date_hired'') \<and>
   findOneAndUpdate (mem sample_odm) ''emp123'' (promotion |` set update_fields)
     [alex_doc, sam_doc] =
     Inr (Some (set_fields update_fields (cast_object sample_odm promotion) alex_doc),
          [set_fields update_fields (cast_object sample_odm promotion) alex_doc, sam_doc]) \<and>
   updateEmployee (mem sample_odm) ''emp123'' (Some promotion) [alex_doc, sam_doc] =
     (Response 200
        (Document (set_fields update_fields (cast_object sample_odm promotion) alex_doc)),
      [set_fields update_fields (cast_object sample_odm promotion) alex_doc, sam_doc]) \<and>
   updateEmployee (mem sample_odm) ''emp999'' (Some promotion) [alex_doc, sam_doc] =
     (Response 404 (Message ''Employee with employee_id emp999 not found''),
      [alex_doc, sam_doc])"
proof -
  have absent: "\<not> present (promotion(''age'' := None)) ''age''"
    by (simp add: present_def)
  then have missing: "\<exists>f \<in> set update_fields. \<not> present (promotion(''age'' := None)) f"
    by (simp add: update_fields_def)
  note rejected = updateEmployee_replace_on_update
      [where body = "promotion(''age'' := None)" and Employee = "mem sample_odm"
        and db = "[alex_doc, sam_doc]" and employee_id = "''emp123''",
        THEN conjunct1, THEN mp, OF missing]
  have accepted:
    "\<not> isl (findOneAndUpdate (mem sample_odm) ''emp123'' (promotion |` set update_fields)
       [alex_doc, sam_doc])"
    by (simp add: findOneAndUpdate_mem promotion_accepted)
  from promotion_truthy accepted
  have pre: "(\<forall>f \<in> set update_fields. \<not> falsy (promotion f)) \<and>
    \<not> isl (findOneAndUpdate (mem sample_odm) ''emp123'' (promotion |` set update_fields)
       [alex_doc, sam_doc])"
    by (rule conjI)
  have some: "\<exists>d \<in> set [alex_doc, sam_doc]. has_id ''emp123'' d" by simp
  note found = updateEmployee_replace_on_update
      [where m = sample_odm and body = promotion and employee_id = "''emp123''"
        and docs = "[alex_doc, sam_doc]",
        THEN conjunct2, THEN conjunct2, THEN conjunct2, THEN mp, OF pre,
        THEN conjunct2, THEN mp, OF some]
  then obtain before d after where ex: "[alex_doc, sam_doc] = before @ d # after"
    "has_id ''emp123'' d"
    "updateEmployee (mem sample_odm) ''emp123'' (Some promotion) [alex_doc, sam_doc] =
       (Response 200 (Document (set_fields update_fields (cast_object sample_odm promotion) d)),
        before @ set_fields update_fields (cast_object sample_odm promotion) d # after)"
    by blast
  from ex(1,2) have "before = [] \<and> d = alex_doc \<and> after = [sam_doc]"
    by (auto simp: Cons_eq_append_conv)
  with ex(3) have updated:
    "updateEmployee (mem sample_odm) ''emp123'' (Some promotion) [alex_doc, sam_doc] =
     (Response 200
        (Document (set_fields update_fields (cast_object sample_odm promotion) alex_doc)),
      [set_fields update_fields (cast_object sample_odm promotion) alex_doc, sam_doc])"
    by simp
  have "\<not> isl (findOneAndUpdate (mem sample_odm) ''emp999'' (promotion |` set update_fields)
      [alex_doc, sam_doc])"
    by (simp add: findOneAndUpdate_mem promotion_accepted_missing)
  with promotion_truthy
  have pre': "(\<forall>f \<in> set update_fields. \<not> falsy (promotion f)) \<and>
    \<not> isl (findOneAndUpdate (mem sample_odm) ''emp999'' (promotion |` set update_fields)
       [alex_doc, sam_doc])"
    by (rule conjI)
  have none: "\<forall>d \<in> set [alex_doc, sam_doc]. \<not> has_id ''emp999'' d" by simp
  note not_found = updateEmployee_replace_on_update
      [where m = sample_odm and body = promotion and employee_id = "''emp999''"
        and docs = "[alex_doc, sam_doc]",
        THEN conjunct2, THEN conjunct2, THEN conjunct2, THEN mp, OF pre',
        THEN conjunct1, THEN mp, OF none]
  have "\<not> falsy (promotion ''name'') \<and> \<not> falsy (promotion ''email'') \<and>
      \<not> falsy (promotion ''job_title'') \<and> \<not> falsy (promotion ''age'') \<and>
      \<not> falsy (promotion ''date_hired'')"
    by (simp add: promotion_def)
  with absent rejected promote_alex_store updated not_found show ?thesis by simp
qed

text \<open>
  The claim as stated fails in three ways. It asks only that the body contain the five
  fields: a body that contains them with the age 0 is answered 400 although the document
  exists. It promises 200 or 404 for every such body: a body of five truthy values whose
  date is no date is answered 400, since the cast of the update fails. And it has the
  fields set to the body values: the date \<^verbatim>\<open>2024-07-03\<close> of the body is, in the
  updated document, the timestamp \<^verbatim>\<open>2024-07-03T00:00:00.000Z\<close> the cast made of it.
\<close>

theorem updateEmployee_present_counterexample:
  "present zero_age ''name'' \<and> present zero_age ''email'' \<and> present zero_age ''job_title'' \<and>
   present zero_age ''age'' \<and> present zero_age ''date_hired'' \<and>
   has_id ''emp123'' alex_doc \<and>
   updateEmployee (mem sample_odm) ''emp123'' (Some zero_age) [alex_doc, sam_doc] =
     (Response 400 (Message ''All fields are required.''), [alex_doc, sam_doc]) \<and>
   \<not> falsy (bad_date ''name'') \<and> \<not> falsy (bad_date ''email'') \<and>
   \<not> falsy (bad_date ''job_title'') \<and> \<not> falsy (bad_date ''age'') \<and>
   \<not> falsy (bad_date ''date_hired'') \<and>
   updateEmployee (mem sample_odm) ''emp123'' (Some bad_date) [alex_doc, sam_doc] =
     (Response 400 (ErrorMessage (CastError ''date_hired'')), [alex_doc, sam_doc]) \<and>
   updateEmployee (mem sample_odm) ''emp123'' (Some promotion) [alex_doc, sam_doc] =
     (Response 200
        (Document (set_fields update_fields (cast_object sample_odm promotion) alex_doc)),
      [set_fields update_fields (cast_object sample_odm promotion) alex_doc, sam_doc]) \<and>
   set_fields update_fields (cast_object sample_odm promotion) alex_doc ''date_hired'' =
     Some (JStr ''2024-07-03T00:00:00.000Z'') \<and>
   promotion ''date_hired'' = Some (JStr ''2024-07-03'')"
proof -
  have "\<exists>f \<in> set update_fields. falsy (zero_age f)"
    by (simp add: update_fields_def zero_age_def)
  then have "updateEmployee (mem sample_odm) ''emp123'' (Some zero_age) [alex_doc, sam_doc] =
     (Response 400 (Message ''All fields are required.''), [alex_doc, sam_doc])"
    by (rule updateEmployee_rejects)
  moreover have "updateEmployee (mem sample_odm) ''emp123'' (Some bad_date)
      [alex_doc, sam_doc] =
     (Response 400 (ErrorMessage (CastError ''date_hired'')), [alex_doc, sam_doc])"
    by (simp add: updateEmployee_mem [OF bad_date_truthy] bad_date_rejected)
  moreover have "present zero_age ''name'' \<and> present zero_age ''email'' \<and>
      present zero_age ''job_title'' \<and> present zero_age ''age'' \<and> present zero_age ''date_hired''"
    by (simp add: present_def zero_age_def promotion_def)
  moreover have "\<not> falsy (bad_date ''name'') \<and> \<not> falsy (bad_date ''email'') \<and>
      \<not> falsy (bad_date ''job_title'') \<and> \<not> falsy (bad_date ''age'') \<and>
      \<not> falsy (bad_date ''date_hired'')"
    by (simp add: bad_date_def promotion_def)
  moreover have "set_fields update_fields (cast_object sample_odm promotion) alex_doc
      ''date_hired'' = Some (JStr ''2024-07-03T00:00:00.000Z'')"
    by (simp add: set_fields_def update_fields_def promotion_cast_date)
  moreover have "promotion ''date_hired'' = Some (JStr ''2024-07-03'')"
    by (simp add: promotion_def)
  ultimately show ?thesis using promote_alex by simp
qed

text \<open>
  C9. When an update succeeds (status 200), the collection differs from the one before in
  one document only, which has the employee_id of the URL; that document keeps its
  employee_id and every property other than the five fields (over the store, for any
  cast). An employee_id supplied in the body is ignored: the handler, with any driver,
  answers the request as it answers the request without it.
\<close>

theorem updateEmployee_keeps_employee_id:
  "(status (fst (updateEmployee (mem m) employee_id (Some body) docs)) = 200 \<longrightarrow>
      (\<exists>before d after d'. docs = before @ d # after \<and> has_id employee_id d \<and>
         updateEmployee (mem m) employee_id (Some body) docs =
           (Response 200 (Document d'), before @ d' # after) \<and>
         d' ''employee_id'' = d ''employee_id'' \<and>
         (\<forall>k. k \<notin> set update_fields \<longrightarrow> d' k = d k))) \<and>
   updateEmployee Employee employee_id (Some (body(''employee_id'' := v))) db =
     updateEmployee Employee employee_id (Some body) db"
proof (intro conjI impI)
  assume ok: "status (fst (updateEmployee (mem m) employee_id (Some body) docs)) = 200"
  have truthy: "\<forall>f \<in> set update_fields. \<not> falsy (body f)"
  proof (rule ccontr)
    assume "\<not> (\<forall>f \<in> set update_fields. \<not> falsy (body f))"
    then have "\<exists>f \<in> set update_fields. falsy (body f)" by simp
    from updateEmployee_rejects [OF this, of "mem m" employee_id docs] ok
    show False by simp
  qed
  let ?r = "mem_findOneAndUpdate m employee_id (body |` set update_fields) docs"
  from ok have accepted: "\<not> isl ?r"
    by (auto simp: updateEmployee_mem [OF truthy] split: sum.splits)
  have some: "\<exists>d \<in> set docs. has_id employee_id d"
  proof (rule ccontr)
    assume "\<not> (\<exists>d \<in> set docs. has_id employee_id d)"
    then have "\<forall>d \<in> set docs. \<not> has_id employee_id d" by simp
    from mem_update_missing [OF this accepted] ok
    show False by (simp add: updateEmployee_mem [OF truthy])
  qed
  from mem_update_found [OF some accepted]
  obtain before d after where ex: "docs = before @ d # after" "has_id employee_id d"
    "?r = Inr (Some (d ++ cast_object m (body |` set update_fields)),
            before @ (d ++ cast_object m (body |` set update_fields)) # after)"
    by blast
  let ?d' = "set_fields update_fields (cast_object m body) d"
  from ex(3) have "updateEmployee (mem m) employee_id (Some body) docs =
      (Response 200 (Document ?d'), before @ ?d' # after)"
    by (simp add: updateEmployee_mem [OF truthy] update_doc [OF truthy accepted])
  moreover have "?d' ''employee_id'' = d ''employee_id''"
    by (simp add: set_fields_def update_fields_def)
  moreover have "\<forall>k. k \<notin> set update_fields \<longrightarrow> ?d' k = d k"
    by (simp add: set_fields_def)
  ultimately show "\<exists>before d after d'. docs = before @ d # after \<and> has_id employee_id d \<and>
         updateEmployee (mem m) employee_id (Some body) docs =
           (Response 200 (Document d'), before @ d' # after) \<and>
         d' ''employee_id'' = d ''employee_id'' \<and>
         (\<forall>k. k \<notin> set update_fields \<longrightarrow> d' k = d k)"
    using ex(1,2) by blast
next
  show "updateEmployee Employee employee_id (Some (body(''employee_id'' := v))) db =
     updateEmployee Employee employee_id (Some body) db"
    by (rule updateEmployee_body_id)
qed

theorem updateEmployee_keeps_id_witness:
  "status (fst (updateEmployee (mem sample_odm) ''emp123'' (Some promotion)
     [alex_doc, sam_doc])) = 200 \<and>
   (\<exists>before d after d'. [alex_doc, sam_doc] = before @ d # after \<and> has_id ''emp123'' d \<and>
      updateEmployee (mem sample_odm) ''emp123'' (Some promotion) [alex_doc, sam_doc] =
        (Response 200 (Document d'), before @ d' # after) \<and>
      d' ''employee_id'' = d ''employee_id'' \<and>
      (\<forall>k. k \<notin> set update_fields \<longrightarrow> d' k = d k)) \<and>
   updateEmployee (mem sample_odm) ''emp123''
     (Some (promotion(''employee_id'' \<mapsto> JStr ''emp456''))) [alex_doc, sam_doc] =
     updateEmployee (mem sample_odm) ''emp123'' (Some promotion) [alex_doc, sam_doc]"
proof -
  have ok: "status (fst (updateEmployee (mem sample_odm) ''emp123'' (Some promotion)
      [alex_doc, sam_doc])) = 200"
    by (simp add: promote_alex)
  note t = updateEmployee_keeps_employee_id
    [where m = sample_odm and employee_id = "''emp123''" and body = promotion
      and docs = "[alex_doc, sam_doc]" and Employee = "mem sample_odm"
      and db = "[alex_doc, sam_doc]" and v = "Some (JStr ''emp456'')"]
  note frame = t [THEN conjunct1, THEN mp, OF ok]
  note ignored = t [THEN conjunct2]
  from ok frame ignored show ?thesis by (intro conjI)
qed

subsection \<open>Status codes\<close>

text \<open>
  C8. Whatever the driver does, and whether or not the request has a parsed body, the
  status of the response of each of the five handlers is one of 200, 201, 400 and 404.
\<close>

theorem handlers_status_codes:
  "status (fst (createEmployee Employee req_body db)) \<in> {200, 201, 400, 404} \<and>
   status (fst (readEmployees Employee db)) \<in> {200, 201, 400, 404} \<and>
   status (fst (readEmployee Employee employee_id db)) \<in> {200, 201, 400, 404} \<and>
   status (fst (updateEmployee Employee employee_id req_body db)) \<in> {200, 201, 400, 404} \<and>
   status (fst (deleteEmployee Employee employee_id db)) \<in> {200, 201, 400, 404}"
proof (intro conjI)
  show "status (fst (createEmployee Employee req_body db)) \<in> {200, 201, 400, 404}"
    using createEmployee_status [of Employee req_body db] by auto
  show "status (fst (readEmployees Employee db)) \<in> {200, 201, 400, 404}"
    using readEmployees_status [of Employee db] by auto
  show "status (fst (readEmployee Employee employee_id db)) \<in> {200, 201, 400, 404}"
    using readEmployee_status [of Employee employee_id db] by auto
  show "status (fst (updateEmployee Employee employee_id req_body db)) \<in> {200, 201, 400, 404}"
    using updateEmployee_status [of Employee employee_id req_body db] by auto
  show "status (fst (deleteEmployee Employee employee_id db)) \<in> {200, 201, 400, 404}"
    using deleteEmployee_status [of Employee employee_id db] by auto
qed

subsection \<open>The schema and the routes\<close>

text \<open>
  C6, as the code has it. The schema declares \<^verbatim>\<open>unique: true\<close> on two paths:
  employee_id and email.
\<close>

theorem unique_paths_are_id_and_email:
  "unique_paths = [''employee_id'', ''email'']"
  by (simp add: unique_paths_def employeeSchema_def plain_def)

text \<open>
  The claim as stated has employee_id as the only unique path; the email path carries
  \<^verbatim>\<open>unique: true\<close> too.
\<close>

theorem unique_email_counterexample:
  "map_option unique (map_of employeeSchema ''email'') = Some True \<and>
   ''email'' \<noteq> ''employee_id'' \<and>
   unique_paths \<noteq> [''employee_id'']"
  by (simp add: unique_paths_def employeeSchema_def plain_def)

text \<open>
  C7, as the code has it. The application exposes seven routes: the five routes of the
  CRUD operations on employees, which are all the routes under \<^verbatim>\<open>/api/employees\<close>,
  and the two health-check routes \<^verbatim>\<open>GET /\<close> and \<^verbatim>\<open>GET /health\<close>.
\<close>

theorem routes_of_app:
  "routes app = crud_routes @ [(GET, [], Root), (GET, [Fixed ''health''], Health)] \<and>
   filter (\<lambda>(m, p, h). take 2 p = [Fixed ''api'', Fixed ''employees'']) (routes app) = crud_routes"
  by (simp add: routes_def app_def crud_routes_def createEmployeeRoute_def readEmployeeRoute_def
      updateEmployeeRoute_def deleteEmployeeRoute_def)

text \<open>
  The claim as stated has the five CRUD routes and no other; a \<^verbatim>\<open>GET /health\<close>
  and a \<^verbatim>\<open>GET /\<close> are answered by handlers of their own.
\<close>

theorem health_route_counterexample:
  "routes app \<noteq> crud_routes \<and> length (routes app) = 7 \<and>
   dispatch app GET [''health''] = Some Health \<and> dispatch app GET [] = Some Root"
proof -
  have "routes app \<noteq> crud_routes \<and> length (routes app) = 7"
    by (simp add: routes_def app_def crud_routes_def createEmployeeRoute_def
        readEmployeeRoute_def updateEmployeeRoute_def deleteEmployeeRoute_def)
  moreover have "dispatch app GET [''health''] = Some Health"
    by code_simp
  moreover have "dispatch app GET [] = Some Root"
    by code_simp
  ultimately show ?thesis by simp
qed

end
